theory Spec2Isabelle
  imports Complex_Main "HOL-Library.Sublist" "HOL-Library.Char_ord" "HOL-Library.List_Lexorder"
begin

section \<open>Conventions of the embedding\<close>

text \<open>
  The TypeScript sources are embedded function by function. A JavaScript number is
  modelled as an exact rational (\<open>rat\<close>); counters that the code only increments
  from zero are \<open>nat\<close>. A JavaScript string is a \<open>string\<close> whose characters stand
  for UTF-16 code units below 256 (the Latin-1 range), which covers every literal of
  the sources. An optional property (\<open>field?: T\<close>, or a property of an \<open>any\<close>
  value that may be absent) is an \<open>option\<close>. A thrown exception is the left
  injection of a sum.
\<close>

datatype error = Error string | TypeError string

section \<open>transcription-service.ts\<close>

subsection \<open>Data\<close>

text \<open>The element type of \<open>TranscriptionResult.segments\<close>: \<open>{id, start, end, text}\<close>.\<close>

record segment =
  seg_id :: rat
  seg_start :: rat
  seg_end :: rat
  seg_text :: string

text \<open>
  \<open>interface TranscriptionResult { text; segments?; language? }\<close>; the fields carry
  the prefix \<open>tr_\<close>.
\<close>

record TranscriptionResult =
  tr_text :: string
  tr_segments :: "segment list option"
  tr_language :: "string option"

subsection \<open>combineTranscriptionResults\<close>

text \<open>\<open>Array.prototype.join\<close> on an array of strings.\<close>

fun join :: "string \<Rightarrow> string list \<Rightarrow> string" where
  "join sep [] = []"
| "join sep [x] = x"
| "join sep (x # y # zs) = x @ sep @ join sep (y # zs)"

text \<open>
  The object spread \<open>{...segment, start: segment.start + lastEndTime,
  end: segment.end + lastEndTime}\<close>.
\<close>

definition adjust :: "rat \<Rightarrow> segment \<Rightarrow> segment" where
  "adjust lastEndTime s =
     s\<lparr>seg_start := seg_start s + lastEndTime, seg_end := seg_end s + lastEndTime\<rparr>"

text \<open>
  One call of the \<open>forEach\<close> callback. The state is the pair of the two variables the
  callback assigns, \<open>allSegments\<close> and \<open>lastEndTime\<close>; \<open>index\<close> is the position of
  \<open>result\<close> in \<open>results\<close>.
\<close>

definition combineStep ::
  "segment list \<times> rat \<Rightarrow> nat \<times> TranscriptionResult \<Rightarrow> segment list \<times> rat" where
  "combineStep st ir =
     (case st of (allSegments, lastEndTime) \<Rightarrow>
      case ir of (index, result) \<Rightarrow>
        (case tr_segments result of
           None \<Rightarrow> (allSegments, lastEndTime)
         | Some segs \<Rightarrow>
             (let adjustedSegments =
                    map (\<lambda>s. if index = 0 then s else adjust lastEndTime s) segs;
                  allSegments' = allSegments @ adjustedSegments
              in if length segs > 0
                 then (allSegments', lastEndTime + seg_end (last segs))
                 else (allSegments', lastEndTime))))"

text \<open>The whole \<open>forEach\<close>, from \<open>allSegments = []\<close> and \<open>lastEndTime = 0\<close>.\<close>

definition combineLoop :: "TranscriptionResult list \<Rightarrow> segment list \<times> rat" where
  "combineLoop results = foldl combineStep ([], 0) (enumerate 0 results)"

text \<open>
  \<open>allSegments.sort((a, b) => a.start - b.start)\<close>: the sort of an array is stable, and
  the comparator orders by \<open>start\<close>, so the result is the stable sort by that key.
\<close>

definition combineTranscriptionResults :: "TranscriptionResult list \<Rightarrow> TranscriptionResult" where
  "combineTranscriptionResults results =
     (if length results = 0 then \<lparr>tr_text = [], tr_segments = None, tr_language = None\<rparr>
      else if length results = 1 then hd results
      else \<lparr>tr_text = join '' '' (map tr_text results),
            tr_segments = Some (sort_key seg_start (fst (combineLoop results))),
            tr_language = tr_language (hd results)\<rparr>)"

subsection \<open>transcribeAudio and transcribeAudioChunks\<close>

text \<open>
  The network is a parameter: \<open>api blob apiKey options\<close> is what the body of the
  \<open>try\<close> block of \<open>transcribeAudio\<close> does for that request, either the message of
  the error thrown there or the parsed response. \<open>transcribeAudio\<close> itself only adds
  the \<open>catch\<close> clause, which rethrows with a prefix.
\<close>

definition transcribeAudio ::
  "('blob \<Rightarrow> string \<Rightarrow> 'opts \<Rightarrow> string + TranscriptionResult) \<Rightarrow>
   'blob \<Rightarrow> string \<Rightarrow> 'opts \<Rightarrow> error + TranscriptionResult" where
  "transcribeAudio api audioBlob apiKey options =
     (case api audioBlob apiKey options of
        Inl message \<Rightarrow> Inl (Error (''Transcription failed: '' @ message))
      | Inr data \<Rightarrow> Inr data)"

text \<open>
  \<open>Promise.all\<close> over the outcomes of the promises: all the values when every
  promise fulfils, else a rejection. The rejection that is handed on is the one that
  settles first; the outcomes are listed here in the order in which they settle,
  which is taken to be the order of the requests.
\<close>

fun promiseAll :: "(error + 'a) list \<Rightarrow> error + 'a list" where
  "promiseAll [] = Inr []"
| "promiseAll (Inl e # ps) = Inl e"
| "promiseAll (Inr v # ps) = (case promiseAll ps of Inl e \<Rightarrow> Inl e | Inr vs \<Rightarrow> Inr (v # vs))"

text \<open>
  The result is a pair: the blobs for which a request was issued, in order, and the
  outcome of the returned promise. Every call of \<open>transcribeAudio\<close> issues its request
  before \<open>Promise.all\<close> is awaited, so in the last branch all chunks are requested
  even when one of them fails.
\<close>

definition transcribeAudioChunks ::
  "('blob \<Rightarrow> string \<Rightarrow> 'opts \<Rightarrow> string + TranscriptionResult) \<Rightarrow>
   'blob list \<Rightarrow> string \<Rightarrow> 'opts \<Rightarrow> 'blob list \<times> (error + TranscriptionResult)" where
  "transcribeAudioChunks api chunks apiKey options =
     (if length chunks = 0 then ([], Inl (Error ''No audio chunks to transcribe''))
      else if length chunks = 1
      then ([hd chunks], transcribeAudio api (hd chunks) apiKey options)
      else (chunks,
            case promiseAll (map (\<lambda>chunk. transcribeAudio api chunk apiKey options) chunks) of
              Inl e \<Rightarrow> Inl e
            | Inr results \<Rightarrow> Inr (combineTranscriptionResults results)))"

section \<open>Strings\<close>

text \<open>The code unit of a character.\<close>

definition code :: "char \<Rightarrow> nat" where
  "code c = of_char c"

text \<open>
  The class \<open>\s\<close> of a regular expression, below 256: tab, line feed, vertical tab,
  form feed, carriage return, space and the no-break space.
\<close>

definition isSpace :: "char \<Rightarrow> bool" where
  "isSpace c = (code c \<in> {9, 10, 11, 12, 13, 32, 160})"

text \<open>The classes \<open>[A-Z]\<close>, \<open>[a-z]\<close>, \<open>[0-9]\<close> and \<open>\w\<close>.\<close>

definition isUpper :: "char \<Rightarrow> bool" where
  "isUpper c = (65 \<le> code c \<and> code c \<le> 90)"

definition isLower :: "char \<Rightarrow> bool" where
  "isLower c = (97 \<le> code c \<and> code c \<le> 122)"

definition isDigit :: "char \<Rightarrow> bool" where
  "isDigit c = (48 \<le> code c \<and> code c \<le> 57)"

definition isWordChar :: "char \<Rightarrow> bool" where
  "isWordChar c = (isUpper c \<or> isLower c \<or> isDigit c \<or> c = CHR ''_'')"

text \<open>
  \<open>String.prototype.toLowerCase\<close>, below 256: the letters \<open>A\<close> to \<open>Z\<close> and the
  accented capitals 192 to 222 (without the multiplication sign, 215) move up by 32.
\<close>

definition toLowerChar :: "char \<Rightarrow> char" where
  "toLowerChar c =
     (if isUpper c \<or> (192 \<le> code c \<and> code c \<le> 222 \<and> code c \<noteq> 215)
      then char_of (code c + 32) else c)"

definition toLowerCase :: "string \<Rightarrow> string" where
  "toLowerCase s = map toLowerChar s"

text \<open>
  \<open>s.split(/\s+/)\<close>, as a scan with the piece being read in \<open>cur\<close>: a run of white
  space closes the piece, and the end of the string closes the last one, so the
  result is never empty and may hold empty pieces at both ends.
\<close>

function splitWs :: "string \<Rightarrow> string \<Rightarrow> string list" where
  "splitWs cur [] = [cur]"
| "splitWs cur (c # cs) =
     (if isSpace c then cur # splitWs [] (dropWhile isSpace cs)
      else splitWs (cur @ [c]) cs)"
  by pat_completeness auto
termination
proof (relation "measure (\<lambda>(cur, s). length s)")
  show "wf (measure (\<lambda>(cur, s). length s))" by simp
next
  fix cur :: string and c :: char and cs :: string
  have "length (dropWhile isSpace cs) \<le> length cs" by (rule length_dropWhile_le)
  then show "(([], dropWhile isSpace cs), (cur, c # cs)) \<in> measure (\<lambda>(cur, s). length s)"
    by simp
next
  fix cur :: string and c :: char and cs :: string
  show "((cur @ [c], cs), (cur, c # cs)) \<in> measure (\<lambda>(cur, s). length s)" by simp
qed

text \<open>\<open>word.includes(w)\<close> on strings: \<open>w\<close> occurs in \<open>word\<close> as a contiguous piece.\<close>

definition includesStr :: "string \<Rightarrow> string \<Rightarrow> bool" where
  "includesStr word w = sublist w word"

section \<open>The Gemini route: the heuristics over the transcript\<close>

subsection \<open>Result shapes\<close>

text \<open>
  The object literal \<open>{positive, negative, neutral}\<close> with numeric values, as the list
  of its entries in property order (the order \<open>Object.entries\<close> gives).
\<close>

type_synonym counts = "(string \<times> int) list"

text \<open>\<open>{sentiment, confidence, distribution}\<close>\<close>

record overallSentiment =
  os_sentiment :: string
  os_confidence :: rat
  os_distribution :: counts

text \<open>An element of the \<open>segments\<close> of a sentiment: \<open>{start, end, sentiment, confidence}\<close>.\<close>

record sentimentSegment =
  ss_start :: "rat option"
  ss_end :: "rat option"
  ss_sentiment :: "string option"
  ss_confidence :: "rat option"

text \<open>
  \<open>{overall, segments}\<close>; \<open>overall\<close> is optional because \<open>calculateOverallSentiment\<close>
  can return \<open>null\<close>.
\<close>

record sentimentResult =
  sr_overall :: "overallSentiment option"
  sr_segments :: "sentimentSegment list"

text \<open>\<open>{topic, confidence}\<close> as \<open>extractTopics\<close> builds it.\<close>

record topicEntry =
  te_topic :: string
  te_confidence :: rat

subsection \<open>analyzeSentiment\<close>

definition positiveWords :: "string list" where
  "positiveWords = [''good'', ''great'', ''excellent'', ''amazing'', ''wonderful'',
     ''fantastic'', ''love'', ''like'', ''happy'', ''pleased'']"

definition negativeWords :: "string list" where
  "negativeWords = [''bad'', ''terrible'', ''awful'', ''hate'', ''dislike'', ''angry'',
     ''frustrated'', ''disappointed'', ''sad'', ''upset'']"

text \<open>
  The callback of \<open>words.forEach\<close>, on the pair \<open>(positiveCount, negativeCount)\<close>:
  the two tests are independent, so one word can raise both counters.
\<close>

definition sentimentStep :: "int \<times> int \<Rightarrow> string \<Rightarrow> int \<times> int" where
  "sentimentStep st word =
     (case st of (positiveCount, negativeCount) \<Rightarrow>
        (if list_ex (\<lambda>pw. includesStr word pw) positiveWords
         then positiveCount + 1 else positiveCount,
         if list_ex (\<lambda>nw. includesStr word nw) negativeWords
         then negativeCount + 1 else negativeCount))"

definition sentimentCountsOf :: "string list \<Rightarrow> int \<times> int" where
  "sentimentCountsOf words = foldl sentimentStep (0, 0) words"

definition analyzeSentiment :: "string \<Rightarrow> sentimentResult" where
  "analyzeSentiment txt =
     (let words = splitWs [] (toLowerCase txt);
          positiveCount = fst (sentimentCountsOf words);
          negativeCount = snd (sentimentCountsOf words);
          overallSentiment =
            (if positiveCount > negativeCount then ''positive''
             else if negativeCount > positiveCount then ''negative''
             else ''neutral'')
      in \<lparr>sr_overall = Some
            \<lparr>os_sentiment = overallSentiment,
             os_confidence =
               min (9 / 10)
                 ((of_int \<bar>positiveCount - negativeCount\<bar> / of_nat (length words)) * 10),
             os_distribution =
               [(''positive'', positiveCount), (''negative'', negativeCount),
                (''neutral'', int (length words) - positiveCount - negativeCount)]\<rparr>,
          sr_segments = []\<rparr>)"

subsection \<open>detectLanguage\<close>

definition englishWords :: "string list" where
  "englishWords = [''the'', ''and'', ''is'', ''in'', ''to'', ''of'', ''a'', ''that'', ''it'',
     ''with'', ''for'', ''as'', ''was'', ''on'', ''are'']"

definition spanishWords :: "string list" where
  "spanishWords = [''el'', ''la'', ''de'', ''que'', ''y'', ''en'', ''un'', ''es'', ''se'',
     ''no'', ''te'', ''lo'', ''le'', ''da'', ''su'']"

text \<open>
  The fourth word is the letter a with a grave accent (code unit 224) and the seventh
  starts with the letter e with a circumflex (code unit 234).
\<close>

definition frenchWords :: "string list" where
  "frenchWords = [''le'', ''de'', ''et'', [char_of (224 :: nat)], ''un'', ''il'',
     char_of (234 :: nat) # ''tre'', ''et'', ''en'', ''avoir'', ''que'', ''pour'', ''dans'',
     ''ce'', ''son'']"

text \<open>
  The callback of \<open>words.forEach\<close> on \<open>(englishCount, spanishCount, frenchCount)\<close>;
  \<open>list.includes(word)\<close> is membership.
\<close>

definition languageStep :: "int \<times> int \<times> int \<Rightarrow> string \<Rightarrow> int \<times> int \<times> int" where
  "languageStep st word =
     (case st of (englishCount, spanishCount, frenchCount) \<Rightarrow>
        (if word \<in> set englishWords then englishCount + 1 else englishCount,
         if word \<in> set spanishWords then spanishCount + 1 else spanishCount,
         if word \<in> set frenchWords then frenchCount + 1 else frenchCount))"

definition languageCountsOf :: "string list \<Rightarrow> int \<times> int \<times> int" where
  "languageCountsOf words = foldl languageStep (0, 0, 0) words"

definition detectLanguage :: "string \<Rightarrow> string" where
  "detectLanguage txt =
     (case languageCountsOf (splitWs [] (toLowerCase txt)) of
        (englishCount, spanishCount, frenchCount) \<Rightarrow>
          if englishCount > spanishCount \<and> englishCount > frenchCount then ''en''
          else if spanishCount > englishCount \<and> spanishCount > frenchCount then ''es''
          else if frenchCount > englishCount \<and> frenchCount > spanishCount then ''fr''
          else ''en'')"

subsection \<open>extractTopics: the pattern\<close>

text \<open>
  The pattern is \<open>/\b[A-Z][a-z]+(?:\s+[A-Z][a-z]+)*\b/g\<close>. Its pieces are matched as
  the backtracking matcher does. A greedy \<open>[a-z]+\<close> takes the whole run of small
  letters; giving one back leaves a small letter next, which neither \<open>\s\<close>, nor
  \<open>\b\<close> after a letter accepts, so only the whole run is kept. Likewise \<open>\s+\<close>
  takes the whole run of white space, as \<open>[A-Z]\<close> must follow.

  \<open>capWord s\<close> matches \<open>[A-Z][a-z]+\<close> at the head of \<open>s\<close> and gives the matched
  text and the rest.
\<close>

definition capWord :: "string \<Rightarrow> (string \<times> string) option" where
  "capWord s =
     (case s of
        [] \<Rightarrow> None
      | c # cs \<Rightarrow>
          if isUpper c \<and> takeWhile isLower cs \<noteq> []
          then Some (c # takeWhile isLower cs, dropWhile isLower cs)
          else None)"

text \<open>One round of the group \<open>(?:\s+[A-Z][a-z]+)\<close>.\<close>

definition nextWord :: "string \<Rightarrow> (string \<times> string) option" where
  "nextWord s =
     (if takeWhile isSpace s = [] then None
      else case capWord (dropWhile isSpace s) of
             None \<Rightarrow> None
           | Some (w, rest) \<Rightarrow> Some (takeWhile isSpace s @ w, rest))"

text \<open>
  The closing \<open>\b\<close>, at a place that follows a small letter: the end of the input, or
  a character outside \<open>\w\<close>.
\<close>

definition boundaryAfter :: "string \<Rightarrow> bool" where
  "boundaryAfter rest = (case rest of [] \<Rightarrow> True | d # ds \<Rightarrow> \<not> isWordChar d)"

text \<open>
  The greedy star followed by the closing \<open>\b\<close>: one more round is tried first, and
  kept when the rest of the pattern matches after it; otherwise the star stops here
  and \<open>\b\<close> is tested here.
\<close>

function phraseTail :: "string \<Rightarrow> (string \<times> string) option" where
  "phraseTail s =
     (case nextWord s of
        None \<Rightarrow> if boundaryAfter s then Some ([], s) else None
      | Some (m, rest) \<Rightarrow>
          (case phraseTail rest of
             Some (m', rest') \<Rightarrow> Some (m @ m', rest')
           | None \<Rightarrow> if boundaryAfter s then Some ([], s) else None))"
  by pat_completeness auto
termination
proof (relation "measure length")
  show "wf (measure length)" by simp
next
  fix s :: string and x2 :: "string \<times> string" and m rest :: string
  assume nw: "nextWord s = Some x2" and x2: "(m, rest) = x2"
  from nw x2 obtain w where cw: "capWord (dropWhile isSpace s) = Some (w, rest)"
    and ne: "takeWhile isSpace s \<noteq> []"
    by (auto simp: nextWord_def split: if_splits option.splits)
  from cw obtain c cs where d: "dropWhile isSpace s = c # cs" and r: "rest = dropWhile isLower cs"
    by (auto simp: capWord_def split: list.splits if_splits)
  have "length rest \<le> length cs" unfolding r by (rule length_dropWhile_le)
  also have "length cs < length (dropWhile isSpace s)" unfolding d by simp
  also have "\<dots> \<le> length s" by (rule length_dropWhile_le)
  finally show "(rest, s) \<in> measure length" by simp
qed

text \<open>
  The whole pattern at the head of \<open>s\<close>, where \<open>prev\<close> is the character before it
  (\<open>None\<close> at the start of the text). The opening \<open>\b\<close> stands before a capital, so
  it asks that no \<open>\w\<close> character precedes.
\<close>

definition matchAt :: "char option \<Rightarrow> string \<Rightarrow> (string \<times> string) option" where
  "matchAt prev s =
     (if (case prev of None \<Rightarrow> True | Some p \<Rightarrow> \<not> isWordChar p)
      then (case capWord s of
              None \<Rightarrow> None
            | Some (w, rest) \<Rightarrow>
                (case phraseTail rest of
                   None \<Rightarrow> None
                 | Some (m, rest') \<Rightarrow> Some (w @ m, rest')))
      else None)"

text \<open>
  \<open>text.match(topicPattern)\<close> with the flag \<open>g\<close>: every match, left to right, the
  search going on from the end of the last match, and one place further where there
  is no match. A match is never empty, so the search always moves on.
\<close>

function matchFrom :: "char option \<Rightarrow> string \<Rightarrow> string list" where
  "matchFrom prev [] = []"
| "matchFrom prev (c # cs) =
     (case matchAt prev (c # cs) of
        Some (m, rest) \<Rightarrow> m # matchFrom (Some (last m)) rest
      | None \<Rightarrow> matchFrom (Some c) cs)"
  by pat_completeness auto
termination
proof (relation "measure (\<lambda>(prev, s). length s)")
  show "wf (measure (\<lambda>(prev, s). length s))" by simp
next
  fix prev :: "char option" and c :: char and cs :: string
    and x2 :: "string \<times> string" and m rest :: string
  assume ma: "matchAt prev (c # cs) = Some x2" and x2: "(m, rest) = x2"
  have tail: "length r \<le> length s" if "phraseTail s = Some (k, r)" for s k r
    using that
  proof (induction s arbitrary: k r rule: phraseTail.induct)
    case (1 s)
    show ?case
    proof (cases "nextWord s")
      case None
      with "1.prems" show ?thesis
        by (simp add: phraseTail.simps [of s] split: if_splits)
    next
      case (Some p)
      obtain m1 r1 where p: "p = (m1, r1)" by (cases p)
      from Some p obtain w where cw: "capWord (dropWhile isSpace s) = Some (w, r1)"
        by (auto simp: nextWord_def split: if_splits option.splits)
      then obtain d ds where d: "dropWhile isSpace s = d # ds" and r1: "r1 = dropWhile isLower ds"
        by (auto simp: capWord_def split: list.splits if_splits)
      have "length r1 \<le> length ds" unfolding r1 by (rule length_dropWhile_le)
      also have "length ds \<le> length (dropWhile isSpace s)" unfolding d by simp
      also have "\<dots> \<le> length s" by (rule length_dropWhile_le)
      finally have le1: "length r1 \<le> length s" .
      show ?thesis
      proof (cases "phraseTail r1")
        case None
        with Some p "1.prems" show ?thesis
          by (simp add: phraseTail.simps [of s] split: if_splits)
      next
        case (Some q)
        obtain m2 r2 where q: "q = (m2, r2)" by (cases q)
        have "length r2 \<le> length r1"
          using "1.IH" [OF \<open>nextWord s = Some p\<close> p [symmetric]] Some q by simp
        moreover have "r = r2"
          using "1.prems" \<open>nextWord s = Some p\<close> p Some q
          by (simp add: phraseTail.simps [of s])
        ultimately show ?thesis using le1 by simp
      qed
    qed
  qed
  from ma x2 have ma': "matchAt prev (c # cs) = Some (m, rest)" by simp
  obtain w r0 where cw: "capWord (c # cs) = Some (w, r0)"
    using ma' by (cases "capWord (c # cs)") (auto simp: matchAt_def split: if_splits)
  obtain k where pt: "phraseTail r0 = Some (k, rest)"
    using ma' cw by (cases "phraseTail r0") (auto simp: matchAt_def split: if_splits)
  have "r0 = dropWhile isLower cs"
    using cw by (simp add: capWord_def split: if_splits)
  then have "length r0 \<le> length cs" by (simp add: length_dropWhile_le)
  with tail [OF pt] show "((Some (last m), rest), (prev, c # cs)) \<in> measure (\<lambda>(prev, s). length s)"
    by simp
next
  fix prev :: "char option" and c :: char and cs :: string
  show "((Some c, cs), (prev, c # cs)) \<in> measure (\<lambda>(prev, s). length s)" by simp
qed

definition matchAll :: "string \<Rightarrow> string list" where
  "matchAll s = matchFrom None s"

subsection \<open>extractTopics: the list of topics\<close>

definition commonWords :: "string list" where
  "commonWords = [''The'', ''This'', ''That'', ''And'', ''But'', ''Or'', ''So'', ''If'',
     ''When'', ''Where'', ''How'', ''What'', ''Who'', ''Why'']"

text \<open>
  The callback of \<open>reduce\<close>. \<open>acc.find\<close> gives the first entry with that topic, whose
  confidence is raised in place; a new topic is pushed with a fresh draw of
  \<open>Math.random()\<close>. The draws are the sequence \<open>rnd\<close>; every push makes one draw and
  nothing else does, so the draw of a push is numbered by the length of \<open>acc\<close>.
\<close>

fun bump :: "string \<Rightarrow> topicEntry list \<Rightarrow> topicEntry list" where
  "bump t [] = []"
| "bump t (e # es) =
     (if te_topic e = t then e\<lparr>te_confidence := te_confidence e + 1 / 10\<rparr> # es
      else e # bump t es)"

definition topicStep :: "(nat \<Rightarrow> rat) \<Rightarrow> topicEntry list \<Rightarrow> string \<Rightarrow> topicEntry list" where
  "topicStep rnd acc t =
     (if list_ex (\<lambda>e. te_topic e = t) acc then bump t acc
      else acc @ [\<lparr>te_topic = t, te_confidence = 6 / 10 + rnd (length acc) * (3 / 10)\<rparr>])"

text \<open>
  The chain \<open>filter\<close>, \<open>reduce\<close>, \<open>sort\<close>, \<open>slice(0, 10)\<close> on the list of matches.
  The comparator \<open>b.confidence - a.confidence\<close> orders by falling confidence, and the
  sort is stable.
\<close>

definition topicsOf :: "(nat \<Rightarrow> rat) \<Rightarrow> string list \<Rightarrow> topicEntry list" where
  "topicsOf rnd matches =
     take 10
       (sort_key (\<lambda>e. - te_confidence e)
          (foldl (topicStep rnd) []
             (filter (\<lambda>m. length m > 2 \<and> m \<notin> set commonWords) matches)))"

definition extractTopics :: "(nat \<Rightarrow> rat) \<Rightarrow> string \<Rightarrow> topicEntry list" where
  "extractTopics rnd txt = topicsOf rnd (matchAll txt)"

section \<open>The Deepgram route\<close>

subsection \<open>The response of the provider\<close>

text \<open>
  The response is an \<open>any\<close>; its shape is the one the function reads, every property
  optional. Speaker numbers are the natural numbers the provider assigns.
\<close>

record dgWord =
  w_word :: "string option"
  w_punctuated_word :: "string option"
  w_start :: "rat option"
  w_end :: "rat option"
  w_confidence :: "rat option"
  w_speaker :: "nat option"

record dgParagraph =
  p_start :: "rat option"
  p_end :: "rat option"
  p_text :: "string option"
  p_speaker :: "nat option"
  p_sentiment :: "string option"

record dgParagraphs =
  ps_paragraphs :: "dgParagraph list option"

record dgAlternative =
  a_transcript :: "string option"
  a_confidence :: "rat option"
  a_words :: "dgWord list option"
  a_paragraphs :: "dgParagraphs option"

record dgChannel =
  c_alternatives :: "dgAlternative list option"

record dgTopic =
  t_topic :: "string option"
  t_confidence_score :: "rat option"

record dgTopics =
  ts_topics :: "dgTopic list option"

record dgSentimentSegment =
  s_start :: "rat option"
  s_end :: "rat option"
  s_sentiment :: "string option"
  s_sentiment_score :: "rat option"

record dgSentiment =
  st_segments :: "dgSentimentSegment list option"

record dgMetadata =
  m_detected_language :: "string option"

record dgResults =
  r_channels :: "dgChannel list option"
  r_topics :: "dgTopics option"
  r_sentiment :: "dgSentiment option"
  r_metadata :: "dgMetadata option"

record dgResponse =
  results :: "dgResults option"

subsection \<open>The normalised result\<close>

record outSegment =
  o_id :: nat
  o_start :: "rat option"
  o_end :: "rat option"
  o_text :: "string option"
  o_speaker :: "nat option"
  o_confidence :: "rat option"

record outParagraph =
  op_start :: "rat option"
  op_end :: "rat option"
  op_text :: "string option"
  op_speaker :: "nat option"
  op_sentiment :: "string option"

record outTopic =
  ot_topic :: "string option"
  ot_confidence :: "rat option"

text \<open>
  The two early returns build an object without \<open>paragraphs\<close> and \<open>metadata\<close>, so
  these two are optional here; a \<open>null\<close> language or sentiment is \<open>None\<close>.
\<close>

record processed =
  pr_text :: string
  pr_confidence :: rat
  pr_language :: "string option"
  pr_speakers :: "nat list"
  pr_segments :: "outSegment list"
  pr_paragraphs :: "outParagraph list option"
  pr_topics :: "outTopic list"
  pr_sentiment :: "sentimentResult option"
  pr_metadata :: "dgMetadata option"
  pr_raw :: dgResponse

subsection \<open>calculateOverallSentiment\<close>

text \<open>Reading and raising a property of \<open>sentimentCounts\<close>.\<close>

definition countOf :: "counts \<Rightarrow> string \<Rightarrow> int" where
  "countOf sentimentCounts k = (case map_of sentimentCounts k of Some n \<Rightarrow> n | None \<Rightarrow> 0)"

definition increment :: "counts \<Rightarrow> string \<Rightarrow> counts" where
  "increment sentimentCounts k = map (\<lambda>(k', n). if k' = k then (k', n + 1) else (k', n)) sentimentCounts"

text \<open>
  The callback of \<open>segments.forEach\<close> on \<open>(sentimentCounts, totalConfidence)\<close>. The
  test \<open>seg.sentiment && sentimentCounts.hasOwnProperty(seg.sentiment)\<close> asks for a
  non-empty string that is one of the three keys.
\<close>

definition overallStep :: "counts \<times> rat \<Rightarrow> dgSentimentSegment \<Rightarrow> counts \<times> rat" where
  "overallStep st seg =
     (case st of (sentimentCounts, totalConfidence) \<Rightarrow>
        (case s_sentiment seg of
           None \<Rightarrow> (sentimentCounts, totalConfidence)
         | Some k \<Rightarrow>
             if k \<noteq> [] \<and> k \<in> set (map fst sentimentCounts)
             then (increment sentimentCounts k,
                   totalConfidence +
                     (case s_sentiment_score seg of None \<Rightarrow> 0 | Some c \<Rightarrow> c))
             else (sentimentCounts, totalConfidence)))"

text \<open>
  The callback of \<open>Object.entries(sentimentCounts).reduce\<close>: the entry \<open>a\<close> held so far
  is kept only when its count is strictly greater than the count of the next entry
  \<open>b\<close>.
\<close>

definition pick :: "counts \<Rightarrow> string \<times> int \<Rightarrow> string \<times> int \<Rightarrow> string \<times> int" where
  "pick sentimentCounts a b =
     (if countOf sentimentCounts (fst a) > countOf sentimentCounts (fst b) then a else b)"

text \<open>
  \<open>reduce\<close> without an initial value starts from the first entry; the object always
  has its three entries.
\<close>

definition calculateOverallSentiment :: "dgSentimentSegment list \<Rightarrow> overallSentiment option" where
  "calculateOverallSentiment segs =
     (if length segs = 0 then None
      else
        (case foldl overallStep ([(''positive'', 0), (''negative'', 0), (''neutral'', 0)], 0) segs of
           (sentimentCounts, totalConfidence) \<Rightarrow>
             Some \<lparr>os_sentiment =
                      fst (foldl (pick sentimentCounts) (hd sentimentCounts) (tl sentimentCounts)),
                    os_confidence = totalConfidence / of_nat (length segs),
                    os_distribution = sentimentCounts\<rparr>))"

subsection \<open>processDeepgramResponse\<close>

text \<open>The object of the two early returns.\<close>

definition emptyResult :: "dgResponse \<Rightarrow> processed" where
  "emptyResult response =
     \<lparr>pr_text = [], pr_confidence = 0, pr_language = None, pr_speakers = [],
      pr_segments = [], pr_paragraphs = None, pr_topics = [], pr_sentiment = None,
      pr_metadata = None, pr_raw = response\<rparr>"

text \<open>
  \<open>speakers.add(word.speaker)\<close> on a \<open>Set\<close>, kept as the list of its members in
  insertion order (the order \<open>Array.from\<close> gives).
\<close>

definition setAdd :: "'a list \<Rightarrow> 'a \<Rightarrow> 'a list" where
  "setAdd s x = (if x \<in> set s then s else s @ [x])"

definition collectSpeakers :: "dgWord list \<Rightarrow> nat list" where
  "collectSpeakers ws =
     foldl (\<lambda>speakers word. case w_speaker word of None \<Rightarrow> speakers
                                | Some k \<Rightarrow> setAdd speakers k) [] ws"

text \<open>\<open>String(n)\<close> for a natural number: its decimal digits.\<close>

fun natToString :: "nat \<Rightarrow> string" where
  "natToString n =
     (if n < 10 then [char_of (48 + n)]
      else natToString (n div 10) @ [char_of (48 + n mod 10)])"

text \<open>
  \<open>Array.prototype.sort\<close> called with no comparator: the elements are compared as
  strings, code unit by code unit, and the sort is stable.
\<close>

definition defaultSort :: "nat list \<Rightarrow> nat list" where
  "defaultSort xs = sort_key natToString xs"

text \<open>\<open>a || b\<close> on optional strings and numbers: \<open>a\<close> unless it is absent, empty or zero.\<close>

definition orString :: "string option \<Rightarrow> string option \<Rightarrow> string option" where
  "orString a b = (case a of Some x \<Rightarrow> if x \<noteq> [] then Some x else b | None \<Rightarrow> b)"

definition orZero :: "rat option \<Rightarrow> rat" where
  "orZero a = (case a of Some x \<Rightarrow> x | None \<Rightarrow> 0)"

definition wordSegment :: "nat \<times> dgWord \<Rightarrow> outSegment" where
  "wordSegment iw =
     (case iw of (index, word) \<Rightarrow>
        \<lparr>o_id = index, o_start = w_start word, o_end = w_end word,
         o_text = orString (w_punctuated_word word) (w_word word),
         o_speaker = w_speaker word, o_confidence = w_confidence word\<rparr>)"

definition paragraphOf :: "dgParagraph \<Rightarrow> outParagraph" where
  "paragraphOf paragraph =
     \<lparr>op_start = p_start paragraph, op_end = p_end paragraph, op_text = p_text paragraph,
      op_speaker = p_speaker paragraph, op_sentiment = p_sentiment paragraph\<rparr>"

definition topicOf :: "dgTopic \<Rightarrow> outTopic" where
  "topicOf t = \<lparr>ot_topic = t_topic t, ot_confidence = t_confidence_score t\<rparr>"

definition sentimentSegmentOf :: "dgSentimentSegment \<Rightarrow> sentimentSegment" where
  "sentimentSegmentOf seg =
     \<lparr>ss_start = s_start seg, ss_end = s_end seg, ss_sentiment = s_sentiment seg,
      ss_confidence = s_sentiment_score seg\<rparr>"

text \<open>
  The part of the function after the two guards, for the results object and the
  first alternative. Each \<open>x?.y?.map(f) || []\<close> is the mapped list, or the empty
  list when a link of the chain is absent.
\<close>

definition normalise :: "dgResponse \<Rightarrow> dgResults \<Rightarrow> dgAlternative \<Rightarrow> processed" where
  "normalise response res alternatives =
     \<lparr>pr_text = (case orString (a_transcript alternatives) (Some []) of
                   Some t \<Rightarrow> t | None \<Rightarrow> []),
      pr_confidence = orZero (a_confidence alternatives),
      pr_language =
        (case r_metadata res of None \<Rightarrow> None
         | Some md \<Rightarrow> orString (m_detected_language md) None),
      pr_speakers =
        defaultSort (case a_words alternatives of None \<Rightarrow> []
                     | Some ws \<Rightarrow> collectSpeakers ws),
      pr_segments =
        (case a_words alternatives of None \<Rightarrow> []
         | Some ws \<Rightarrow> map wordSegment (enumerate 0 ws)),
      pr_paragraphs =
        Some (case a_paragraphs alternatives of None \<Rightarrow> []
              | Some ps \<Rightarrow> (case ps_paragraphs ps of None \<Rightarrow> []
                            | Some l \<Rightarrow> map paragraphOf l)),
      pr_topics =
        (case r_topics res of None \<Rightarrow> []
         | Some ts \<Rightarrow> (case ts_topics ts of None \<Rightarrow> [] | Some l \<Rightarrow> map topicOf l)),
      pr_sentiment =
        (case r_sentiment res of None \<Rightarrow> None
         | Some st \<Rightarrow>
             (case st_segments st of None \<Rightarrow> None
              | Some segs \<Rightarrow>
                  if length segs > 0
                  then Some \<lparr>sr_overall = calculateOverallSentiment segs,
                             sr_segments = map sentimentSegmentOf segs\<rparr>
                  else None)),
      pr_metadata = r_metadata res,
      pr_raw = response\<rparr>"

text \<open>
  The guards. \<open>results.channels[0]\<close> exists once the list is not empty;
  \<open>channel.alternatives[0]\<close> reads index 0 of \<open>channel.alternatives\<close> with no
  guard, which throws a \<open>TypeError\<close> when that property is absent and gives
  \<open>undefined\<close> when the list is empty.
\<close>

definition processDeepgramResponse :: "dgResponse \<Rightarrow> error + processed" where
  "processDeepgramResponse response =
     (case results response of
        None \<Rightarrow> Inr (emptyResult response)
      | Some res \<Rightarrow>
          (case r_channels res of
             None \<Rightarrow> Inr (emptyResult response)
           | Some chs \<Rightarrow>
               if length chs = 0 then Inr (emptyResult response)
               else
                 (case c_alternatives (hd chs) of
                    None \<Rightarrow> Inl (TypeError ''Cannot read properties of undefined'')
                  | Some alts \<Rightarrow>
                      (case alts of
                         [] \<Rightarrow> Inr (emptyResult response)
                       | alternatives # others \<Rightarrow>
                           Inr (normalise response res alternatives)))))"

section \<open>The options panel\<close>

text \<open>
  \<open>interface TranscriptionOptions\<close> of the options component, the fields with the
  prefix \<open>opt_\<close>. The provider is typed as one of three literals, but
  \<open>handleProviderChange\<close> receives a plain string and casts it, so it is a
  string here.
\<close>

record TranscriptionOptions =
  opt_provider :: string
  opt_model :: string
  opt_language :: string
  opt_diarize :: bool
  opt_sentiment :: bool
  opt_topics :: bool
  opt_detectLanguage :: bool
  opt_customTopicMode :: string
  opt_customTopics :: "string list"
  opt_includeTimestamps :: "bool option"
  opt_speakerLabels :: "bool option"
  opt_punctuation :: "bool option"

text \<open>
  The result is the pair of the warnings written to the console and the options
  handed to \<open>onChange\<close>, which every path calls exactly once.
\<close>

definition handleProviderChange ::
  "TranscriptionOptions \<Rightarrow> string \<Rightarrow> string list \<times> TranscriptionOptions" where
  "handleProviderChange options newProviderValue =
     (let newProvider = newProviderValue in
      if newProvider = ''openai''
      then ([], options\<lparr>opt_provider := newProvider, opt_model := ''whisper-1''\<rparr>)
      else if newProvider = ''gemini''
      then ([], options\<lparr>opt_provider := newProvider,
                       opt_model := ''gemini-2.5-flash-preview-04-17''\<rparr>)
      else if newProvider = ''deepgram''
      then ([], options\<lparr>opt_provider := newProvider, opt_model := ''nova-3''\<rparr>)
      else ([''Unknown provider selected: '' @ newProvider],
            options\<lparr>opt_provider := newProvider\<rparr>))"

section \<open>The specification's side\<close>

text \<open>
  The definitions of this section follow the words of the specification, to be
  compared with the functions above.
\<close>

text \<open>
  Re-basing as the specification words it: the segments of every chunk are moved by
  a running offset, which is the end time of the final segment of the previous
  chunk as re-based, and stays as it is after a chunk without segments. The first
  chunk is moved by 0.
\<close>

fun rebased :: "rat \<Rightarrow> TranscriptionResult list \<Rightarrow> segment list list" where
  "rebased offset [] = []"
| "rebased offset (r # rs) =
     (let segs = map (adjust offset) (case tr_segments r of None \<Rightarrow> [] | Some l \<Rightarrow> l)
      in segs # rebased (if segs = [] then offset else seg_end (last segs)) rs)"

text \<open>The number of segments that carry the label \<open>k\<close>.\<close>

definition labelCount :: "string \<Rightarrow> dgSentimentSegment list \<Rightarrow> int" where
  "labelCount k segs = int (length (filter (\<lambda>seg. s_sentiment seg = Some k) segs))"

text \<open>The words of a text: its pieces between white space, in small letters.\<close>

definition wordsOf :: "string \<Rightarrow> string list" where
  "wordsOf txt = splitWs [] (toLowerCase txt)"

text \<open>The number of words that contain one of the keywords.\<close>

definition keywordCount :: "string list \<Rightarrow> string \<Rightarrow> int" where
  "keywordCount keywords txt =
     int (length (filter (\<lambda>word. \<exists>k \<in> set keywords. sublist k word) (wordsOf txt)))"

text \<open>The number of words that belong to a vocabulary.\<close>

definition occurrences :: "string list \<Rightarrow> string \<Rightarrow> int" where
  "occurrences vocabulary txt =
     int (length (filter (\<lambda>word. word \<in> set vocabulary) (wordsOf txt)))"

subsection \<open>Inputs of the examples\<close>

text \<open>The two chunks of the re-basing example.\<close>

definition chunkA :: TranscriptionResult where
  "chunkA = \<lparr>tr_text = ''first'',
             tr_segments = Some [\<lparr>seg_id = 0, seg_start = 0, seg_end = 30, seg_text = ''first''\<rparr>],
             tr_language = Some ''en''\<rparr>"

definition chunkB :: TranscriptionResult where
  "chunkB = \<lparr>tr_text = ''second'',
             tr_segments = Some [\<lparr>seg_id = 0, seg_start = 0, seg_end = 20, seg_text = ''second''\<rparr>],
             tr_language = Some ''en''\<rparr>"

text \<open>A sentiment segment with the label \<open>k\<close> and nothing else.\<close>

definition labelled :: "string \<Rightarrow> dgSentimentSegment" where
  "labelled k = \<lparr>s_start = None, s_end = None, s_sentiment = Some k, s_sentiment_score = None\<rparr>"

text \<open>A word spoken by speaker \<open>k\<close>, and the response whose first alternative has the words \<open>ws\<close>.\<close>

definition wordBy :: "nat \<Rightarrow> dgWord" where
  "wordBy k = \<lparr>w_word = Some ''word'', w_punctuated_word = None, w_start = Some 0,
               w_end = Some 1, w_confidence = Some 1, w_speaker = Some k\<rparr>"

definition responseWith :: "dgWord list \<Rightarrow> dgResponse" where
  "responseWith ws =
     \<lparr>results = Some
        \<lparr>r_channels = Some [\<lparr>c_alternatives = Some
            [\<lparr>a_transcript = Some ''word'', a_confidence = Some 1, a_words = Some ws,
              a_paragraphs = None\<rparr>]\<rparr>],
         r_topics = None, r_sentiment = None, r_metadata = None\<rparr>\<rparr>"

text \<open>The response whose channel list is \<open>chs\<close>.\<close>

definition responseOfChannels :: "dgChannel list \<Rightarrow> dgResponse" where
  "responseOfChannels chs =
     \<lparr>results = Some \<lparr>r_channels = Some chs, r_topics = None, r_sentiment = None,
                       r_metadata = None\<rparr>\<rparr>"

section \<open>Properties of the Deepgram route\<close>

subsection \<open>The overall sentiment\<close>

lemma overall_counts:
  "fst (foldl overallStep ([(''positive'', p), (''negative'', n), (''neutral'', u)], t) segs) =
     [(''positive'', p + labelCount ''positive'' segs),
      (''negative'', n + labelCount ''negative'' segs),
      (''neutral'', u + labelCount ''neutral'' segs)]"
proof (induction segs arbitrary: p n u t)
  case Nil
  show ?case by (simp add: labelCount_def)
next
  case (Cons seg segs)
  show ?case
  proof (cases "s_sentiment seg")
    case None
    then have "overallStep ([(''positive'', p), (''negative'', n), (''neutral'', u)], t) seg =
                 ([(''positive'', p), (''negative'', n), (''neutral'', u)], t)"
      by (simp add: overallStep_def)
    with None show ?thesis by (simp add: Cons.IH labelCount_def)
  next
    case (Some k)
    consider "k = ''positive''" | "k = ''negative''" | "k = ''neutral''"
      | "k \<noteq> ''positive''" "k \<noteq> ''negative''" "k \<noteq> ''neutral''"
      by blast
    then show ?thesis
    proof cases
      case 1
      with Some have "overallStep ([(''positive'', p), (''negative'', n), (''neutral'', u)], t) seg =
          ([(''positive'', p + 1), (''negative'', n), (''neutral'', u)], t + orZero (s_sentiment_score seg))"
        by (simp add: overallStep_def increment_def orZero_def split: option.splits)
      with Some 1 show ?thesis by (simp add: Cons.IH labelCount_def)
    next
      case 2
      with Some have "overallStep ([(''positive'', p), (''negative'', n), (''neutral'', u)], t) seg =
          ([(''positive'', p), (''negative'', n + 1), (''neutral'', u)], t + orZero (s_sentiment_score seg))"
        by (simp add: overallStep_def increment_def orZero_def split: option.splits)
      with Some 2 show ?thesis by (simp add: Cons.IH labelCount_def)
    next
      case 3
      with Some have "overallStep ([(''positive'', p), (''negative'', n), (''neutral'', u)], t) seg =
          ([(''positive'', p), (''negative'', n), (''neutral'', u + 1)], t + orZero (s_sentiment_score seg))"
        by (simp add: overallStep_def increment_def orZero_def split: option.splits)
      with Some 3 show ?thesis by (simp add: Cons.IH labelCount_def)
    next
      case 4
      with Some have "overallStep ([(''positive'', p), (''negative'', n), (''neutral'', u)], t) seg =
          ([(''positive'', p), (''negative'', n), (''neutral'', u)], t)"
        by (simp add: overallStep_def)
      with Some 4 show ?thesis by (simp add: Cons.IH labelCount_def)
    qed
  qed
qed

lemma pick_three:
  "fst (foldl (pick [(''positive'', p), (''negative'', n), (''neutral'', u)])
          (hd [(''positive'', p), (''negative'', n), (''neutral'', u)])
          (tl [(''positive'', p), (''negative'', n), (''neutral'', u)])) =
     last (filter (\<lambda>k. countOf [(''positive'', p), (''negative'', n), (''neutral'', u)] k = max (max p n) u)
             [''positive'', ''negative'', ''neutral''])"
  by (simp add: pick_def countOf_def)

text \<open>
  C1, as the code has it. For every non-empty list of sentiment segments,
  \<open>calculateOverallSentiment\<close> returns a result whose distribution counts the
  segments of each class and whose sentiment is the last class, in the order
  positive, negative, neutral, that attains the greatest count. When several classes
  attain it, the last of them wins, not the first.
\<close>

theorem overall_sentiment_last_maximum:
  "segs \<noteq> [] \<Longrightarrow>
   \<exists>r. calculateOverallSentiment segs = Some r
     \<and> os_distribution r =
         [(''positive'', labelCount ''positive'' segs),
          (''negative'', labelCount ''negative'' segs),
          (''neutral'', labelCount ''neutral'' segs)]
     \<and> os_sentiment r =
         last (filter (\<lambda>k. labelCount k segs =
                  max (max (labelCount ''positive'' segs) (labelCount ''negative'' segs))
                      (labelCount ''neutral'' segs))
               [''positive'', ''negative'', ''neutral''])"
proof -
  assume ne: "segs \<noteq> []"
  obtain d t where f: "foldl overallStep ([(''positive'', 0), (''negative'', 0), (''neutral'', 0)], 0) segs = (d, t)"
    by (cases "foldl overallStep ([(''positive'', 0), (''negative'', 0), (''neutral'', 0)], 0) segs")
  have d: "d = [(''positive'', labelCount ''positive'' segs),
          (''negative'', labelCount ''negative'' segs),
          (''neutral'', labelCount ''neutral'' segs)]"
    using overall_counts [of 0 0 0 0 segs] f by simp
  have c: "calculateOverallSentiment segs =
     Some \<lparr>os_sentiment = fst (foldl (pick d) (hd d) (tl d)),
           os_confidence = t / of_nat (length segs), os_distribution = d\<rparr>"
    using ne f by (simp add: calculateOverallSentiment_def)
  have s: "fst (foldl (pick d) (hd d) (tl d)) =
         last (filter (\<lambda>k. labelCount k segs =
                  max (max (labelCount ''positive'' segs) (labelCount ''negative'' segs))
                      (labelCount ''neutral'' segs))
               [''positive'', ''negative'', ''neutral''])"
    unfolding d pick_three by (simp add: countOf_def)
  show ?thesis using c d s by simp
qed

text \<open>The theorem at the list positive, negative: both attain the count 1, and negative wins.\<close>

theorem overall_sentiment_last_maximum_witness:
  "[labelled ''positive'', labelled ''negative''] \<noteq> []
   \<and> (\<exists>r. calculateOverallSentiment [labelled ''positive'', labelled ''negative''] = Some r
          \<and> os_distribution r = [(''positive'', 1), (''negative'', 1), (''neutral'', 0)]
          \<and> os_sentiment r = ''negative'')"
  using overall_sentiment_last_maximum [of "[labelled ''positive'', labelled ''negative'']"]
  by (auto simp: labelCount_def labelled_def)

text \<open>
  C1 as the specification states it fails: for the two segments positive, negative
  the overall sentiment is negative, where the specification says positive.
\<close>

theorem tie_resolves_to_negative:
  "map_option os_sentiment (calculateOverallSentiment [labelled ''positive'', labelled ''negative''])
     = Some ''negative''"
  by (simp add: calculateOverallSentiment_def overallStep_def labelled_def increment_def
      pick_def countOf_def)

subsection \<open>The speakers\<close>

text \<open>
  What holds of the speaker list for every word list: it holds each speaker of the
  words once, and no other.
\<close>

lemma collectSpeakers_gen:
  "distinct acc \<Longrightarrow>
   distinct (foldl (\<lambda>speakers word. case w_speaker word of None \<Rightarrow> speakers
                                   | Some k \<Rightarrow> setAdd speakers k) acc ws)
   \<and> set (foldl (\<lambda>speakers word. case w_speaker word of None \<Rightarrow> speakers
                                   | Some k \<Rightarrow> setAdd speakers k) acc ws)
       = set acc \<union> {k. \<exists>w \<in> set ws. w_speaker w = Some k}"
proof (induction ws arbitrary: acc)
  case Nil
  then show ?case by simp
next
  case (Cons w ws)
  show ?case
  proof (cases "w_speaker w")
    case None
    with Cons.IH [OF Cons.prems] show ?thesis by auto
  next
    case (Some k)
    have d: "distinct (setAdd acc k)" using Cons.prems by (simp add: setAdd_def)
    have s: "set (setAdd acc k) = insert k (set acc)" by (auto simp: setAdd_def)
    from Cons.IH [OF d] Some s show ?thesis by auto
  qed
qed

lemma speakers_once:
  "distinct (defaultSort (collectSpeakers ws))
   \<and> set (defaultSort (collectSpeakers ws)) = {k. \<exists>w \<in> set ws. w_speaker w = Some k}"
  using collectSpeakers_gen [of "[]" ws] by (simp add: defaultSort_def collectSpeakers_def)

lemma speakers_example:
  "map_sum (\<lambda>e. e) pr_speakers (processDeepgramResponse (responseWith [wordBy 0, wordBy 1, wordBy 0]))
     = Inr [0, 1]"
  by code_simp

text \<open>
  C2 fails for speaker numbers of 10 or more. The words of speakers 2 and 10 give the
  speaker list 10, 2: the sort compares the numbers as strings, and the string of 10
  is below the string of 2. The specification asks for 2, 10.
\<close>

theorem speakers_two_ten_sorted_as_strings:
  "map_sum (\<lambda>e. e) pr_speakers (processDeepgramResponse (responseWith [wordBy 2, wordBy 10]))
     = Inr [10, 2]"
  by code_simp

subsection \<open>The guards\<close>

text \<open>
  What holds of the guards: no channel, or a first channel with no alternative,
  gives the empty result.
\<close>

lemma empty_channels_give_empty_result:
  "processDeepgramResponse (responseOfChannels []) = Inr (emptyResult (responseOfChannels []))"
  by (simp add: processDeepgramResponse_def responseOfChannels_def)

lemma empty_alternatives_give_empty_result:
  "processDeepgramResponse (responseOfChannels (\<lparr>c_alternatives = Some []\<rparr> # chs)) =
     Inr (emptyResult (responseOfChannels (\<lparr>c_alternatives = Some []\<rparr> # chs)))"
  by (simp add: processDeepgramResponse_def responseOfChannels_def)

text \<open>
  C3 fails in its general part. A response whose only channel has no
  \<open>alternatives\<close> property makes \<open>processDeepgramResponse\<close> throw a \<open>TypeError\<close>,
  where the specification says that it never throws on such an input.
\<close>

theorem absent_alternatives_throws:
  "processDeepgramResponse (responseOfChannels [\<lparr>c_alternatives = None\<rparr>]) =
     Inl (TypeError ''Cannot read properties of undefined'')"
  by (simp add: processDeepgramResponse_def responseOfChannels_def)

section \<open>Properties of the chunk combiner\<close>

subsection \<open>Re-basing\<close>

lemma adjust_zero: "adjust 0 s = s"
  by (simp add: adjust_def)

lemma seg_end_adjust: "seg_end (adjust off s) = seg_end s + off"
  by (simp add: adjust_def)

lemma combineStep_rebased:
  assumes "i = 0 \<longrightarrow> off = 0"
  shows "combineStep (acc, off) (i, r) =
           (acc @ map (adjust off) (case tr_segments r of None \<Rightarrow> [] | Some l \<Rightarrow> l),
            (if map (adjust off) (case tr_segments r of None \<Rightarrow> [] | Some l \<Rightarrow> l) = [] then off
             else seg_end (last (map (adjust off) (case tr_segments r of None \<Rightarrow> [] | Some l \<Rightarrow> l)))))"
proof (cases "tr_segments r")
  case None
  then show ?thesis by (simp add: combineStep_def)
next
  case (Some segs)
  have m: "map (\<lambda>s. if i = 0 then s else adjust off s) segs = map (adjust off) segs"
    using assms by (auto simp: adjust_zero)
  show ?thesis
  proof (cases "segs = []")
    case True
    with Some show ?thesis by (simp add: combineStep_def)
  next
    case False
    then have "seg_end (last (map (adjust off) segs)) = off + seg_end (last segs)"
      by (simp add: last_map seg_end_adjust)
    with Some False m show ?thesis by (simp add: combineStep_def Let_def)
  qed
qed

lemma combineLoop_rebased_gen:
  "(i = 0 \<longrightarrow> off = 0) \<Longrightarrow>
   fst (foldl combineStep (acc, off) (enumerate i rs)) = acc @ concat (rebased off rs)"
proof (induction rs arbitrary: acc off i)
  case Nil
  then show ?case by simp
next
  case (Cons r rs)
  have "Suc i = 0 \<longrightarrow> x = (0::rat)" for x by simp
  then show ?case
    using Cons.prems by (simp add: combineStep_rebased Cons.IH Let_def)
qed

lemma combineLoop_rebased: "fst (combineLoop rs) = concat (rebased 0 rs)"
  using combineLoop_rebased_gen [of 0 0 "[]" rs] by (simp add: combineLoop_def)

text \<open>
  C4. For every list of two or more chunk results, the segments of the combined
  result are the segments of the chunks, each chunk re-based by the running offset
  (the end time of the final segment of the previous chunk), concatenated and sorted
  by start time, the order of equal start times kept; they are ascending by start
  time; and the chunk with the segment from 0 to 30 followed by the chunk with the
  segment from 0 to 20 gives the segments from 0 to 30 and from 30 to 50.
\<close>

theorem combine_rebases_and_sorts:
  "(2 \<le> length rs \<longrightarrow>
     tr_segments (combineTranscriptionResults rs) =
       Some (sort_key seg_start (concat (rebased 0 rs)))
     \<and> sorted (map seg_start (sort_key seg_start (concat (rebased 0 rs)))))
   \<and> tr_segments (combineTranscriptionResults [chunkA, chunkB]) =
       Some [\<lparr>seg_id = 0, seg_start = 0, seg_end = 30, seg_text = ''first''\<rparr>,
             \<lparr>seg_id = 0, seg_start = 30, seg_end = 50, seg_text = ''second''\<rparr>]"
proof
  show "2 \<le> length rs \<longrightarrow>
     tr_segments (combineTranscriptionResults rs) =
       Some (sort_key seg_start (concat (rebased 0 rs)))
     \<and> sorted (map seg_start (sort_key seg_start (concat (rebased 0 rs))))"
    by (simp add: combineTranscriptionResults_def combineLoop_rebased)
next
  have "tr_segments (combineTranscriptionResults [chunkA, chunkB]) =
          Some (sort_key seg_start (concat (rebased 0 [chunkA, chunkB])))"
    by (simp add: combineTranscriptionResults_def combineLoop_rebased)
  then show "tr_segments (combineTranscriptionResults [chunkA, chunkB]) =
       Some [\<lparr>seg_id = 0, seg_start = 0, seg_end = 30, seg_text = ''first''\<rparr>,
             \<lparr>seg_id = 0, seg_start = 30, seg_end = 50, seg_text = ''second''\<rparr>]"
    by (simp add: chunkA_def chunkB_def adjust_def)
qed

text \<open>The theorem at three chunks: the third is moved by 50, the re-based end of the second.\<close>

theorem combine_rebases_and_sorts_witness:
  "2 \<le> length [chunkA, chunkB, chunkB]
   \<and> tr_segments (combineTranscriptionResults [chunkA, chunkB, chunkB]) =
       Some [\<lparr>seg_id = 0, seg_start = 0, seg_end = 30, seg_text = ''first''\<rparr>,
             \<lparr>seg_id = 0, seg_start = 30, seg_end = 50, seg_text = ''second''\<rparr>,
             \<lparr>seg_id = 0, seg_start = 50, seg_end = 70, seg_text = ''second''\<rparr>]"
  using combine_rebases_and_sorts [of "[chunkA, chunkB, chunkB]"]
  by (simp add: chunkA_def chunkB_def adjust_def)

subsection \<open>One chunk, and the text of several\<close>

lemma join_spaced: "xs \<noteq> [] \<Longrightarrow> join sep xs = drop (length sep) (concat (map (\<lambda>t. sep @ t) xs))"
  by (induction sep xs rule: join.induct) simp_all

text \<open>
  C5. \<open>combineTranscriptionResults\<close> on a list of one result returns that result, and
  on a list of two or more results the combined text is the texts of the chunks in
  order with one space between neighbours: every text with a space before it, put
  together, without the first space.
\<close>

theorem combine_single_and_text:
  "combineTranscriptionResults [r] = r
   \<and> (2 \<le> length rs \<longrightarrow>
        tr_text (combineTranscriptionResults rs) =
          tl (concat (map (\<lambda>r. '' '' @ tr_text r) rs)))"
proof
  show "combineTranscriptionResults [r] = r" by (simp add: combineTranscriptionResults_def)
next
  show "2 \<le> length rs \<longrightarrow>
        tr_text (combineTranscriptionResults rs) = tl (concat (map (\<lambda>r. '' '' @ tr_text r) rs))"
  proof
    assume len: "2 \<le> length rs"
    then have ne: "map tr_text rs \<noteq> []" by auto
    from len have "tr_text (combineTranscriptionResults rs) = join '' '' (map tr_text rs)"
      by (simp add: combineTranscriptionResults_def)
    also have "\<dots> = drop (length '' '') (concat (map (\<lambda>t. '' '' @ t) (map tr_text rs)))"
      using ne by (rule join_spaced)
    also have "\<dots> = tl (concat (map (\<lambda>r. '' '' @ tr_text r) rs))"
      by (simp add: comp_def drop_Suc)
    finally show "tr_text (combineTranscriptionResults rs) = tl (concat (map (\<lambda>r. '' '' @ tr_text r) rs))" .
  qed
qed

theorem combine_single_and_text_witness:
  "combineTranscriptionResults [chunkA] = chunkA
   \<and> 2 \<le> length [chunkA, chunkB]
   \<and> tr_text (combineTranscriptionResults [chunkA, chunkB]) = ''first second''"
  using combine_single_and_text [of chunkA "[chunkA, chunkB]"]
  by (simp add: chunkA_def chunkB_def)

subsection \<open>The empty list\<close>

text \<open>
  C10. \<open>transcribeAudioChunks\<close> on the empty list of chunks issues no request and
  fails with the message \<open>No audio chunks to transcribe\<close>, whatever the network
  would answer; \<open>combineTranscriptionResults\<close> on the empty list returns the result
  with the empty text, no segments and no language.
\<close>

theorem empty_inputs_differ:
  "transcribeAudioChunks api [] apiKey options = ([], Inl (Error ''No audio chunks to transcribe''))
   \<and> combineTranscriptionResults [] = \<lparr>tr_text = '''', tr_segments = None, tr_language = None\<rparr>"
  by (simp add: transcribeAudioChunks_def combineTranscriptionResults_def)

section \<open>Properties of the options panel\<close>

text \<open>
  C9. For every value of the options, a change to one of the three providers hands
  on the options with that provider and its default model, \<open>whisper-1\<close> for openai,
  \<open>nova-3\<close> for deepgram and \<open>gemini-2.5-flash-preview-04-17\<close> for gemini, every
  other field as it was, and writes no warning.
\<close>

theorem provider_change_resets_model:
  "handleProviderChange options ''openai'' =
     ([], options\<lparr>opt_provider := ''openai'', opt_model := ''whisper-1''\<rparr>)
   \<and> handleProviderChange options ''deepgram'' =
     ([], options\<lparr>opt_provider := ''deepgram'', opt_model := ''nova-3''\<rparr>)
   \<and> handleProviderChange options ''gemini'' =
     ([], options\<lparr>opt_provider := ''gemini'', opt_model := ''gemini-2.5-flash-preview-04-17''\<rparr>)"
  by (simp add: handleProviderChange_def)

section \<open>Properties of the Gemini heuristics\<close>

subsection \<open>Sentiment\<close>

lemma splitWs_nonempty: "splitWs cur s \<noteq> []"
  by (induction cur s rule: splitWs.induct) auto

lemma sentiment_counts_gen:
  "foldl sentimentStep (p, n) ws =
     (p + int (length (filter (\<lambda>word. \<exists>k \<in> set positiveWords. sublist k word) ws)),
      n + int (length (filter (\<lambda>word. \<exists>k \<in> set negativeWords. sublist k word) ws)))"
  by (induction ws arbitrary: p n) (simp_all add: sentimentStep_def includesStr_def list_ex_iff)

lemma sentiment_counts:
  "sentimentCountsOf (wordsOf txt) = (keywordCount positiveWords txt, keywordCount negativeWords txt)"
  by (simp add: sentimentCountsOf_def sentiment_counts_gen keywordCount_def)

text \<open>
  C6. For every text, the overall sentiment of \<open>analyzeSentiment\<close> is positive
  exactly when more words contain a positive keyword than a negative one, negative
  exactly when more contain a negative one, and neutral exactly when the two counts
  are equal; its confidence is the smaller of 0.9 and the distance of the two counts,
  divided by the number of words and multiplied by 10; and the number of words is
  never zero.
\<close>

theorem gemini_sentiment_label_and_confidence:
  "\<exists>r. sr_overall (analyzeSentiment txt) = Some r
     \<and> (os_sentiment r = ''positive'' \<longleftrightarrow>
          keywordCount positiveWords txt > keywordCount negativeWords txt)
     \<and> (os_sentiment r = ''negative'' \<longleftrightarrow>
          keywordCount negativeWords txt > keywordCount positiveWords txt)
     \<and> (os_sentiment r = ''neutral'' \<longleftrightarrow>
          keywordCount positiveWords txt = keywordCount negativeWords txt)
     \<and> os_confidence r =
          min (9 / 10)
            (of_int \<bar>keywordCount positiveWords txt - keywordCount negativeWords txt\<bar>
               / of_nat (length (wordsOf txt)) * 10)
     \<and> 0 < length (wordsOf txt)"
proof -
  have ne: "0 < length (wordsOf txt)"
    using splitWs_nonempty [of "[]" "toLowerCase txt"] by (simp add: wordsOf_def)
  have c: "sentimentCountsOf (splitWs [] (toLowerCase txt)) =
             (keywordCount positiveWords txt, keywordCount negativeWords txt)"
    using sentiment_counts [of "txt"] by (simp add: wordsOf_def)
  show ?thesis
    using ne by (simp add: analyzeSentiment_def Let_def c wordsOf_def)
qed

text \<open>The theorem at a text of six words, two of them positive and one negative.\<close>

theorem gemini_sentiment_label_and_confidence_witness:
  "keywordCount positiveWords ''I love this great bad thing'' = 2
   \<and> keywordCount negativeWords ''I love this great bad thing'' = 1
   \<and> map_option os_sentiment (sr_overall (analyzeSentiment ''I love this great bad thing''))
       = Some ''positive''
   \<and> map_option os_confidence (sr_overall (analyzeSentiment ''I love this great bad thing''))
       = Some (9 / 10)"
proof -
  have c: "keywordCount positiveWords ''I love this great bad thing'' = 2"
    "keywordCount negativeWords ''I love this great bad thing'' = 1"
    "length (wordsOf ''I love this great bad thing'') = 6" by code_simp+
  show ?thesis
    using gemini_sentiment_label_and_confidence [of "''I love this great bad thing''"]
    unfolding c by auto
qed

subsection \<open>Language\<close>

lemma language_counts_gen:
  "foldl languageStep (e, s, f) ws =
     (e + int (length (filter (\<lambda>word. word \<in> set englishWords) ws)),
      s + int (length (filter (\<lambda>word. word \<in> set spanishWords) ws)),
      f + int (length (filter (\<lambda>word. word \<in> set frenchWords) ws)))"
  by (induction ws arbitrary: e s f) (simp_all add: languageStep_def)

lemma language_counts:
  "languageCountsOf (wordsOf txt) =
     (occurrences englishWords txt, occurrences spanishWords txt, occurrences frenchWords txt)"
  by (simp add: languageCountsOf_def language_counts_gen occurrences_def)

text \<open>
  C7. For every text, \<open>detectLanguage\<close> returns the language whose vocabulary has
  strictly more occurrences among the words than each of the other two, and returns
  \<open>en\<close> when no vocabulary has, which includes three counts of zero.
\<close>

theorem detectLanguage_strict_maximum:
  "(occurrences englishWords txt > occurrences spanishWords txt
      \<and> occurrences englishWords txt > occurrences frenchWords txt
      \<longrightarrow> detectLanguage txt = ''en'')
   \<and> (occurrences spanishWords txt > occurrences englishWords txt
      \<and> occurrences spanishWords txt > occurrences frenchWords txt
      \<longrightarrow> detectLanguage txt = ''es'')
   \<and> (occurrences frenchWords txt > occurrences englishWords txt
      \<and> occurrences frenchWords txt > occurrences spanishWords txt
      \<longrightarrow> detectLanguage txt = ''fr'')
   \<and> (\<not> (occurrences englishWords txt > occurrences spanishWords txt
           \<and> occurrences englishWords txt > occurrences frenchWords txt)
      \<and> \<not> (occurrences spanishWords txt > occurrences englishWords txt
           \<and> occurrences spanishWords txt > occurrences frenchWords txt)
      \<and> \<not> (occurrences frenchWords txt > occurrences englishWords txt
           \<and> occurrences frenchWords txt > occurrences spanishWords txt)
      \<longrightarrow> detectLanguage txt = ''en'')"
proof -
  have c: "languageCountsOf (splitWs [] (toLowerCase txt)) =
     (occurrences englishWords txt, occurrences spanishWords txt, occurrences frenchWords txt)"
    using language_counts [of "txt"] by (simp add: wordsOf_def)
  show ?thesis by (simp add: detectLanguage_def c)
qed

text \<open>
  The theorem at five texts: one for each language, one with no known word, and one
  where English and Spanish tie.
\<close>

theorem detectLanguage_strict_maximum_witness:
  "detectLanguage ''the cat is on a mat'' = ''en''
   \<and> detectLanguage ''el gato y la casa'' = ''es''
   \<and> detectLanguage ''le chat et il'' = ''fr''
   \<and> occurrences englishWords ''xyzzy'' = 0 \<and> occurrences spanishWords ''xyzzy'' = 0
   \<and> occurrences frenchWords ''xyzzy'' = 0 \<and> detectLanguage ''xyzzy'' = ''en''
   \<and> occurrences englishWords ''the el'' = 1 \<and> occurrences spanishWords ''the el'' = 1
   \<and> detectLanguage ''the el'' = ''en''"
proof -
  have 1: "occurrences englishWords ''the cat is on a mat'' = 4"
    "occurrences spanishWords ''the cat is on a mat'' = 0"
    "occurrences frenchWords ''the cat is on a mat'' = 0" by code_simp+
  have 2: "occurrences englishWords ''el gato y la casa'' = 0"
    "occurrences spanishWords ''el gato y la casa'' = 3"
    "occurrences frenchWords ''el gato y la casa'' = 0" by code_simp+
  have 3: "occurrences englishWords ''le chat et il'' = 0"
    "occurrences spanishWords ''le chat et il'' = 1"
    "occurrences frenchWords ''le chat et il'' = 3" by code_simp+
  have 4: "occurrences englishWords ''xyzzy'' = 0" "occurrences spanishWords ''xyzzy'' = 0"
    "occurrences frenchWords ''xyzzy'' = 0" by code_simp+
  have 5: "occurrences englishWords ''the el'' = 1" "occurrences spanishWords ''the el'' = 1"
    "occurrences frenchWords ''the el'' = 0" by code_simp+
  show ?thesis
    using detectLanguage_strict_maximum [of "''the cat is on a mat''"]
      detectLanguage_strict_maximum [of "''el gato y la casa''"]
      detectLanguage_strict_maximum [of "''le chat et il''"]
      detectLanguage_strict_maximum [of "''xyzzy''"]
      detectLanguage_strict_maximum [of "''the el''"]
    unfolding 1 2 3 4 5 by simp
qed

subsection \<open>Topics\<close>

lemma bump_topics: "map te_topic (bump t es) = map te_topic es"
  by (induction es) auto

lemma topicStep_topics:
  "map te_topic (topicStep rnd acc t) =
     (if t \<in> set (map te_topic acc) then map te_topic acc else map te_topic acc @ [t])"
  by (auto simp: topicStep_def bump_topics list_ex_iff)

lemma foldl_topicStep_set:
  "set (map te_topic (foldl (topicStep rnd) acc ts)) = set (map te_topic acc) \<union> set ts"
proof (induction ts arbitrary: acc)
  case Nil
  show ?case by simp
next
  case (Cons t ts)
  show ?case unfolding foldl_Cons Cons.IH topicStep_topics by auto
qed

lemma foldl_topicStep_distinct:
  "distinct (map te_topic acc) \<Longrightarrow> distinct (map te_topic (foldl (topicStep rnd) acc ts))"
proof (induction ts arbitrary: acc)
  case Nil
  then show ?case by simp
next
  case (Cons t ts)
  have "distinct (map te_topic (topicStep rnd acc t))"
    using Cons.prems unfolding topicStep_topics by auto
  then show ?case unfolding foldl_Cons by (rule Cons.IH)
qed

lemma insort_key_map_distinct:
  "distinct (map f (insort_key k x xs)) = (f x \<notin> f ` set xs \<and> distinct (map f xs))"
  by (induction xs) (auto simp: set_insort_key)

lemma sort_key_map_distinct: "distinct (map f (sort_key k xs)) = distinct (map f xs)"
  by (induction xs) (simp_all add: insort_key_map_distinct)

lemma topicsOf_set:
  "set (map te_topic (topicsOf rnd ms)) \<subseteq> {m \<in> set ms. length m > 2 \<and> m \<notin> set commonWords}"
proof -
  let ?l = "sort_key (\<lambda>e. - te_confidence e) (foldl (topicStep rnd) [] (filter (\<lambda>m. length m > 2 \<and> m \<notin> set commonWords) ms))"
  have "set (map te_topic (take 10 ?l)) \<subseteq> set (map te_topic ?l)"
    using set_take_subset [of 10 ?l] by auto
  also have "\<dots> = te_topic ` set (foldl (topicStep rnd) [] (filter (\<lambda>m. length m > 2 \<and> m \<notin> set commonWords) ms))"
    by simp
  also have "\<dots> = set (filter (\<lambda>m. length m > 2 \<and> m \<notin> set commonWords) ms)"
    using foldl_topicStep_set [of rnd "[]"] by simp
  finally show ?thesis unfolding topicsOf_def by auto
qed

lemma topicsOf_distinct: "distinct (map te_topic (topicsOf rnd ms))"
proof -
  let ?l = "sort_key (\<lambda>e. - te_confidence e) (foldl (topicStep rnd) [] (filter (\<lambda>m. length m > 2 \<and> m \<notin> set commonWords) ms))"
  have "distinct (map te_topic ?l)"
    by (simp add: sort_key_map_distinct foldl_topicStep_distinct)
  then have "distinct (take 10 (map te_topic ?l))" by (rule distinct_take)
  then show ?thesis by (simp add: topicsOf_def take_map)
qed

lemma matchAll_fox: "matchAll ''The Quick Brown Fox'' = [''The Quick Brown Fox'']"
  by code_simp

lemma topics_fox: "map te_topic (extractTopics rnd ''The Quick Brown Fox'') = [''The Quick Brown Fox'']"
  unfolding extractTopics_def matchAll_fox
  by (simp add: topicsOf_def topicStep_def commonWords_def)

text \<open>
  C8. For every text and every sequence of random draws, \<open>extractTopics\<close> returns at
  most 10 entries, no entry has a topic of 2 characters or fewer, no entry has a
  topic of the stop list, so none is the bare word \<open>The\<close>, and no topic occurs twice;
  and the text \<open>The Quick Brown Fox\<close> gives one topic, the whole phrase.
\<close>

theorem extractTopics_filtered:
  "length (extractTopics rnd txt) \<le> 10
   \<and> (\<forall>e \<in> set (extractTopics rnd txt).
        length (te_topic e) > 2 \<and> te_topic e \<notin> set commonWords \<and> te_topic e \<noteq> ''The'')
   \<and> distinct (map te_topic (extractTopics rnd txt))
   \<and> map te_topic (extractTopics rnd ''The Quick Brown Fox'') = [''The Quick Brown Fox'']"
proof (intro conjI)
  show "length (extractTopics rnd txt) \<le> 10"
    by (simp add: extractTopics_def topicsOf_def)
  have "''The'' \<in> set commonWords" by (simp add: commonWords_def)
  then show "\<forall>e \<in> set (extractTopics rnd txt).
        length (te_topic e) > 2 \<and> te_topic e \<notin> set commonWords \<and> te_topic e \<noteq> ''The''"
    using topicsOf_set [of rnd "matchAll txt"] by (auto simp: extractTopics_def)
  show "distinct (map te_topic (extractTopics rnd txt))"
    by (simp add: extractTopics_def topicsOf_distinct)
  show "map te_topic (extractTopics rnd ''The Quick Brown Fox'') = [''The Quick Brown Fox'']"
    by (rule topics_fox)
qed

text \<open>
  The theorem at a text with a stop word, a repeated topic and a short word, all
  draws being 0: two topics are left, the repeated one first.
\<close>

theorem extractTopics_filtered_witness:
  "extractTopics (\<lambda>n. 0) ''The. Paris, Quick Brown Fox, Paris or Al'' =
     [\<lparr>te_topic = ''Paris'', te_confidence = 7 / 10\<rparr>,
      \<lparr>te_topic = ''Quick Brown Fox'', te_confidence = 6 / 10\<rparr>]
   \<and> length ''Paris'' > 2 \<and> ''Paris'' \<notin> set commonWords
   \<and> length ''Quick Brown Fox'' > 2 \<and> ''Quick Brown Fox'' \<notin> set commonWords"
proof -
  have m: "matchAll ''The. Paris, Quick Brown Fox, Paris or Al'' =
             [''The'', ''Paris'', ''Quick Brown Fox'', ''Paris'', ''Al'']"
    by code_simp
  have e: "extractTopics (\<lambda>n. 0) ''The. Paris, Quick Brown Fox, Paris or Al'' =
     [\<lparr>te_topic = ''Paris'', te_confidence = 7 / 10\<rparr>,
      \<lparr>te_topic = ''Quick Brown Fox'', te_confidence = 6 / 10\<rparr>]"
    unfolding extractTopics_def m
    by (simp add: topicsOf_def topicStep_def commonWords_def)
  show ?thesis
    using extractTopics_filtered [of "\<lambda>n. 0" "''The. Paris, Quick Brown Fox, Paris or Al''"]
    unfolding e by simp
qed

end
